theory Spec2Isabelle
  imports Complex_Main "HOL-Library.Char_ord" "HOL-Library.List_Lexorder" "HOL-Library.Multiset"
begin

section \<open>Data model of \<open>Dataclass.py\<close>\<close>

text \<open>
  Exceptions are values. \<open>RuntimeError\<close> stands for Python's \<open>RuntimeError\<close> and its
  subclasses (what \<open>except RuntimeError\<close> catches); \<open>OtherError\<close> is any exception the
  libraries raise that is none of the named ones.
\<close>

datatype error =
    RuntimeError
  | FileNotFoundError
  | AttributeError
  | KeyError
  | ValueError
  | ZeroDivisionError
  | OtherError string

text \<open>
  A stage of a transform pipeline: the two stages the class itself creates, and any
  stage the caller supplies (\<open>AFMcrop\<close>, resize, flip, ...), kept opaque.
\<close>

datatype 'a transform =
    ToTensor
  | Normalize "real list" "real list"
  | Stage 'a

text \<open>
  Python lists are mutable objects: a list of transforms is a reference into a store
  of list objects. \<open>transforms.Compose(l)\<close> keeps the list object it is given.
\<close>

type_synonym ref = nat

datatype compose = Compose ref

text \<open>A directory tree as \<open>os.scandir\<close> and \<open>os.walk\<close> see it.\<close>

datatype entry = File string | Dir string "entry list"

text \<open>
  An image tensor as \<open>ToTensor\<close> yields it, of shape (channels, height, width). Its
  entries are real numbers: the rounding of float32 arithmetic is outside the model.
\<close>

record tensor =
  channels :: nat
  height :: nat
  width :: nat
  elem :: "nat \<Rightarrow> nat \<Rightarrow> nat \<Rightarrow> real"

text \<open>\<open>datasets.ImageFolder\<close>: its root, the class names, the samples (path, class index)
  and the transform it was given.\<close>

record 't image_folder =
  root :: string
  classes :: "string list"
  samples :: "(string \<times> nat) list"
  transform :: 't

text \<open>\<open>torch.utils.data.DataLoader\<close>: the arguments it was built with.\<close>

record data_loader =
  dl_dataset :: "compose image_folder"
  dl_batch_size :: int
  dl_shuffle :: bool
  dl_num_workers :: int

text \<open>What the program does to the world besides its object: the loaders it constructs,
  the batches it fetches and the lines it prints.\<close>

datatype event =
    Construct data_loader
  | Fetch data_loader
  | Print string

text \<open>
  The state: the attributes of the \<open>Dataclass\<close> object (\<open>None\<close> while an attribute is
  not set), the store of the list objects, and the trace of effects.
\<close>

record 'a state =
  data_dir :: string
  mean :: "real list option"
  std :: "real list option"
  data_transforms :: "(string \<rightharpoonup> compose) option"
  image_datasets :: "(string \<rightharpoonup> compose image_folder) option"
  dataloaders :: "(string \<rightharpoonup> data_loader) option"
  dataset_sizes :: "(string \<rightharpoonup> nat) option"
  class_names :: "string list option"
  store :: "ref \<Rightarrow> 'a transform list"
  trace :: "event list"

text \<open>
  The environment of the program, which the source reaches through library calls:
  \<^item> \<open>scandir p\<close>: the directory tree below the path \<open>p\<close>, \<open>None\<close> when \<open>p\<close> is no directory;
  \<^item> \<open>DataLoader_raises l\<close>: the exception the \<open>DataLoader\<close> constructor raises for these
    arguments, if any;
  \<^item> \<open>first_batch l\<close>: what \<open>next(iter(l))\<close> gives, a batch (inputs, classes) or an exception
    (starting the worker processes happens here);
  \<^item> \<open>getitem tf p\<close>: the image file at \<open>p\<close>, opened and passed through the stages \<open>tf\<close>;
  \<^item> \<open>make_grid\<close>: \<open>torchvision.utils.make_grid\<close>.
\<close>

record 'a env =
  scandir :: "string \<Rightarrow> entry list option"
  DataLoader_raises :: "data_loader \<Rightarrow> error option"
  first_batch :: "data_loader \<Rightarrow> error + (tensor list \<times> nat list)"
  getitem :: "'a transform list \<Rightarrow> string \<Rightarrow> tensor"
  make_grid :: "tensor list \<Rightarrow> tensor"

text \<open>A PIL image: its size and the pixel at column \<open>x\<close>, row \<open>y\<close>.\<close>

record 'p image =
  im_width :: nat
  im_height :: nat
  pixel :: "nat \<Rightarrow> nat \<Rightarrow> 'p"

section \<open>\<open>AFMcrop\<close>\<close>

text \<open>
  \<open>0.7 * w\<close> is a product of IEEE doubles. The double \<open>0.7\<close> is
  \<open>6305039478318694 / 2 ^ 53\<close>, and \<open>w\<close> (below \<open>2 ^ 53\<close>) is a double itself, so the exact
  product is \<open>n / 2 ^ 53\<close> with \<open>n = 6305039478318694 * w\<close>; the result is that number
  rounded to 53 significant bits, ties to even.
\<close>

function bit_length :: "nat \<Rightarrow> nat" where
  "bit_length n = (if n = 0 then 0 else Suc (bit_length (n div 2)))"
  by pat_completeness auto
termination
  by (relation "measure id") auto

declare bit_length.simps [simp del]

text \<open>\<open>n / 2 ^ k\<close> rounded to the nearest integer, ties to even.\<close>

definition round_half_even :: "nat \<Rightarrow> nat \<Rightarrow> nat" where
  "round_half_even n k =
     (let q = n div 2 ^ k; r = n mod 2 ^ k
      in if 2 * r > 2 ^ k \<or> (2 * r = 2 ^ k \<and> odd q) then q + 1 else q)"

text \<open>The double \<open>0.7 * w\<close>, as the pair \<open>(q, k)\<close> that stands for \<open>q * 2 ^ k / 2 ^ 53\<close>.\<close>

definition mul_0_7 :: "nat \<Rightarrow> nat \<times> nat" where
  "mul_0_7 w =
     (let n = 6305039478318694 * w; k = bit_length n - 53
      in (round_half_even n k, k))"

text \<open>\<open>math.floor(0.7 * w)\<close>.\<close>

definition floor_mul_0_7 :: "nat \<Rightarrow> nat" where
  "floor_mul_0_7 w = (case mul_0_7 w of (q, k) \<Rightarrow> (q * 2 ^ k) div 2 ^ 53)"

text \<open>\<open>transforms.functional.crop(img, top, left, height, width)\<close>: the box of that size
  with its corner at (left, top); PIL fills what lies outside the image with zero.\<close>

definition crop :: "'p::zero image \<Rightarrow> nat \<Rightarrow> nat \<Rightarrow> nat \<Rightarrow> nat \<Rightarrow> 'p image" where
  "crop img top' left h w =
     \<lparr>im_width = w, im_height = h,
      pixel = (\<lambda>x y. if left + x < im_width img \<and> top' + y < im_height img
                      then pixel img (left + x) (top' + y) else 0)\<rparr>"

definition AFMcrop :: "'p::zero image \<Rightarrow> 'p image" where
  "AFMcrop img =
     (let w = im_width img; h = im_height img;
          new_w = floor_mul_0_7 w
      in crop img 0 0 h new_w)"

section \<open>\<open>__init__\<close> and \<open>add_transforms\<close>\<close>

definition Dataclass :: "string \<Rightarrow> (ref \<Rightarrow> 'a transform list) \<Rightarrow> 'a state" where
  "Dataclass data_dir' st =
     \<lparr>data_dir = data_dir', mean = None, std = None, data_transforms = None,
      image_datasets = None, dataloaders = None, dataset_sizes = None, class_names = None,
      store = st, trace = []\<rparr>"

text \<open>\<open>l.extend(xs)\<close> on the list object \<open>l\<close>.\<close>

definition extend :: "ref \<Rightarrow> 'a transform list \<Rightarrow> 'a state \<Rightarrow> 'a state" where
  "extend l xs s = s\<lparr>store := (store s)(l := store s l @ xs)\<rparr>"

definition add_transforms ::
  "ref \<Rightarrow> ref \<Rightarrow> real list \<Rightarrow> real list \<Rightarrow> 'a state \<Rightarrow> 'a state" where
  "add_transforms transforms_train transforms_val mean' std' s =
     (let s1 = s\<lparr>mean := Some mean', std := Some std'\<rparr>;
          s2 = extend transforms_train [ToTensor, Normalize mean' std'] s1;
          s3 = extend transforms_val [ToTensor, Normalize mean' std'] s2
      in s3\<lparr>data_transforms :=
            Some [''train'' \<mapsto> Compose transforms_train, ''val'' \<mapsto> Compose transforms_val]\<rparr>)"

text \<open>The stages of the composed pipeline stored under a key, read through the list
  object the \<open>Compose\<close> holds.\<close>

definition pipeline :: "'a state \<Rightarrow> string \<Rightarrow> 'a transform list option" where
  "pipeline s x =
     (case data_transforms s of
        None \<Rightarrow> None
      | Some d \<Rightarrow> (case d x of None \<Rightarrow> None | Some (Compose l) \<Rightarrow> Some (store s l)))"

section \<open>\<open>datasets.ImageFolder\<close>\<close>

text \<open>\<open>os.path.join\<close> of two components (POSIX).\<close>

definition path_join :: "string \<Rightarrow> string \<Rightarrow> string" where
  "path_join a b =
     (if b \<noteq> [] \<and> hd b = CHR ''/'' then b
      else if a = [] \<or> last a = CHR ''/'' then a @ b
      else a @ ''/'' @ b)"

text \<open>\<open>str.lower\<close> on the ASCII letters, and \<open>str.endswith\<close>.\<close>

definition lower_char :: "char \<Rightarrow> char" where
  "lower_char c =
     (case map_of (zip ''ABCDEFGHIJKLMNOPQRSTUVWXYZ'' ''abcdefghijklmnopqrstuvwxyz'') c of
        Some l \<Rightarrow> l
      | None \<Rightarrow> c)"

definition endswith :: "string \<Rightarrow> string \<Rightarrow> bool" where
  "endswith s e = (length e \<le> length s \<and> drop (length s - length e) s = e)"

definition IMG_EXTENSIONS :: "string list" where
  "IMG_EXTENSIONS =
     [''.jpg'', ''.jpeg'', ''.png'', ''.ppm'', ''.bmp'', ''.pgm'', ''.tif'', ''.tiff'', ''.webp'']"

definition is_valid_file :: "string \<Rightarrow> bool" where
  "is_valid_file path = list_ex (endswith (map lower_char path)) IMG_EXTENSIONS"

text \<open>\<open>os.walk\<close>: a directory and every directory below it, each with the names of the
  files it holds.\<close>

primrec walk_entry :: "string \<Rightarrow> entry \<Rightarrow> (string \<times> string list) list" where
  "walk_entry dir (File f) = []"
| "walk_entry dir (Dir d es) =
     (path_join dir d, [f. File f \<leftarrow> es]) # concat (map (walk_entry (path_join dir d)) es)"

text \<open>\<open>make_dataset\<close> for one class: the valid files below the class directory, directories
  in the order of their paths and files in the order of their names.\<close>

definition class_instances :: "string \<Rightarrow> entry \<Rightarrow> nat \<Rightarrow> (string \<times> nat) list" where
  "class_instances directory e class_index =
     [(path_join r f, class_index).
        (r, fs) \<leftarrow> sort_key fst (walk_entry directory e), f \<leftarrow> sort fs,
        is_valid_file (path_join r f)]"

text \<open>
  \<open>ImageFolder(directory, transform)\<close>: the classes are the subdirectories in sorted
  order; a missing directory, a directory with no subdirectory and a class with no valid
  file each raise \<open>FileNotFoundError\<close>.
\<close>

definition ImageFolder :: "'a env \<Rightarrow> string \<Rightarrow> 't \<Rightarrow> error + 't image_folder" where
  "ImageFolder env directory tf =
     (case scandir env directory of
        None \<Rightarrow> Inl FileNotFoundError
      | Some es \<Rightarrow>
          (let cls = sort [d. Dir d sub \<leftarrow> es];
               instances =
                 map (\<lambda>(i, c). concat [class_instances directory (Dir d sub) i. Dir d sub \<leftarrow> es, d = c])
                   (enumerate 0 cls)
           in if cls = [] \<or> list_ex (\<lambda>inst. inst = []) instances then Inl FileNotFoundError
              else Inr \<lparr>root = directory, classes = cls, samples = concat instances,
                        transform = tf\<rparr>))"

section \<open>\<open>load_data\<close> and \<open>get_batchdata\<close>\<close>

text \<open>
  A dict comprehension \<open>{x: f(x) for x in keys}\<close> whose body may raise and may have
  effects: the keys are taken in order, and the first exception ends it.
\<close>

fun dict_comp ::
  "(string \<Rightarrow> 's \<Rightarrow> (error + 'v) \<times> 's) \<Rightarrow> string list \<Rightarrow> (string \<rightharpoonup> 'v) \<Rightarrow> 's \<Rightarrow>
     (error + (string \<rightharpoonup> 'v)) \<times> 's" where
  "dict_comp f [] d s = (Inr d, s)"
| "dict_comp f (x # xs) d s =
     (case f x s of
        (Inl e, s1) \<Rightarrow> (Inl e, s1)
      | (Inr v, s1) \<Rightarrow> dict_comp f xs (d(x \<mapsto> v)) s1)"

text \<open>\<open>datasets.ImageFolder(os.path.join(self.data_dir, x), self.data_transforms[x])\<close>.\<close>

definition new_dataset ::
  "'a env \<Rightarrow> string \<Rightarrow> 'a state \<Rightarrow> (error + compose image_folder) \<times> 'a state" where
  "new_dataset env x s =
     (case data_transforms s of
        None \<Rightarrow> (Inl AttributeError, s)
      | Some dt \<Rightarrow>
          (case dt x of
             None \<Rightarrow> (Inl KeyError, s)
           | Some tf \<Rightarrow> (ImageFolder env (path_join (data_dir s) x) tf, s)))"

text \<open>The loader that \<open>DataLoader(ds, batch_size=.., shuffle=True, num_workers=..)\<close> builds.\<close>

definition loader :: "compose image_folder \<Rightarrow> int \<Rightarrow> int \<Rightarrow> data_loader" where
  "loader ds batch_size num_workers =
     \<lparr>dl_dataset = ds, dl_batch_size = batch_size, dl_shuffle = True,
      dl_num_workers = num_workers\<rparr>"

text \<open>\<open>torch.utils.data.DataLoader(self.image_datasets[x], batch_size=batch_size,
  shuffle=True, num_workers=num_workers)\<close>.\<close>

definition new_loader ::
  "'a env \<Rightarrow> int \<Rightarrow> int \<Rightarrow> string \<Rightarrow> 'a state \<Rightarrow> (error + data_loader) \<times> 'a state" where
  "new_loader env batch_size num_workers x s =
     (case image_datasets s of
        None \<Rightarrow> (Inl AttributeError, s)
      | Some ds \<Rightarrow>
          (case ds x of
             None \<Rightarrow> (Inl KeyError, s)
           | Some d \<Rightarrow>
               (let l = loader d batch_size num_workers;
                    s1 = s\<lparr>trace := trace s @ [Construct l]\<rparr>
                in case DataLoader_raises env l of
                     Some e \<Rightarrow> (Inl e, s1)
                   | None \<Rightarrow> (Inr l, s1))))"

definition get_batchdata ::
  "'a env \<Rightarrow> string \<Rightarrow> 'a state \<Rightarrow> (error + tensor \<times> nat list) \<times> 'a state" where
  "get_batchdata env data s =
     (case dataloaders s of
        None \<Rightarrow> (Inl AttributeError, s)
      | Some dl \<Rightarrow>
          (case dl data of
             None \<Rightarrow> (Inl KeyError, s)
           | Some l \<Rightarrow>
               (let s1 = s\<lparr>trace := trace s @ [Fetch l]\<rparr>
                in case first_batch env l of
                     Inl e \<Rightarrow> (Inl e, s1)
                   | Inr (inputs, classes') \<Rightarrow> (Inr (make_grid env inputs, classes'), s1))))"

text \<open>The body of the \<open>try\<close> in \<open>load_data\<close>.\<close>

definition try_body :: "'a env \<Rightarrow> int \<Rightarrow> int \<Rightarrow> 'a state \<Rightarrow> (error + unit) \<times> 'a state" where
  "try_body env batch_size num_workers s =
     (case dict_comp (new_loader env batch_size num_workers) [''train'', ''val''] Map.empty s of
        (Inl e, s1) \<Rightarrow> (Inl e, s1)
      | (Inr dl, s1) \<Rightarrow>
          (case get_batchdata env ''train'' (s1\<lparr>dataloaders := Some dl\<rparr>) of
             (Inl e, s2) \<Rightarrow> (Inl e, s2)
           | (Inr g, s2) \<Rightarrow> (Inr (), s2)))"

definition warning :: string where
  "warning = ''Using multiple workers failed. Using 0 workers instead. Using Spyder with Windows might cause this problem.''"

text \<open>The \<open>except RuntimeError\<close> handler.\<close>

definition handler :: "'a env \<Rightarrow> int \<Rightarrow> 'a state \<Rightarrow> (error + unit) \<times> 'a state" where
  "handler env batch_size s =
     (case dict_comp (new_loader env batch_size 0) [''train'', ''val''] Map.empty
             (s\<lparr>trace := trace s @ [Print warning]\<rparr>) of
        (Inl e, s1) \<Rightarrow> (Inl e, s1)
      | (Inr dl, s1) \<Rightarrow> (Inr (), s1\<lparr>dataloaders := Some dl\<rparr>))"

text \<open>\<open>len(self.image_datasets[x])\<close>.\<close>

definition dataset_len :: "string \<Rightarrow> 'a state \<Rightarrow> (error + nat) \<times> 'a state" where
  "dataset_len x s =
     (case image_datasets s of
        None \<Rightarrow> (Inl AttributeError, s)
      | Some ds \<Rightarrow>
          (case ds x of
             None \<Rightarrow> (Inl KeyError, s)
           | Some d \<Rightarrow> (Inr (length (samples d)), s)))"

text \<open>The last two statements of \<open>load_data\<close>.\<close>

definition store_sizes :: "'a state \<Rightarrow> (error + unit) \<times> 'a state" where
  "store_sizes s =
     (case dict_comp dataset_len [''train'', ''val''] Map.empty s of
        (Inl e, s1) \<Rightarrow> (Inl e, s1)
      | (Inr sizes, s1) \<Rightarrow>
          (let s2 = s1\<lparr>dataset_sizes := Some sizes\<rparr>
           in case image_datasets s2 of
                None \<Rightarrow> (Inl AttributeError, s2)
              | Some ds \<Rightarrow>
                  (case ds ''train'' of
                     None \<Rightarrow> (Inl KeyError, s2)
                   | Some d \<Rightarrow> (Inr (), s2\<lparr>class_names := Some (classes d)\<rparr>))))"

definition load_data :: "'a env \<Rightarrow> int \<Rightarrow> int \<Rightarrow> 'a state \<Rightarrow> (error + unit) \<times> 'a state" where
  "load_data env batch_size num_workers s =
     (case dict_comp (new_dataset env) [''train'', ''val''] Map.empty s of
        (Inl e, s1) \<Rightarrow> (Inl e, s1)
      | (Inr ds, s1) \<Rightarrow>
          (case try_body env batch_size num_workers (s1\<lparr>image_datasets := Some ds\<rparr>) of
             (Inr u, s2) \<Rightarrow> store_sizes s2
           | (Inl e, s2) \<Rightarrow>
               if e = RuntimeError then
                 (case handler env batch_size s2 of
                    (Inl e', s3) \<Rightarrow> (Inl e', s3)
                  | (Inr u, s3) \<Rightarrow> store_sizes s3)
               else (Inl e, s2)))"

section \<open>\<open>get_meanstd\<close>\<close>

text \<open>
  The batches of \<open>DataLoader(dataset, batch_size=n, shuffle=False, num_workers=0)\<close>: the
  samples in their order, \<open>n\<close> at a time, the last batch with what is left.
\<close>

function chunks :: "nat \<Rightarrow> 'a list \<Rightarrow> 'a list list" where
  "chunks n xs = (if n = 0 \<or> xs = [] then [] else take n xs # chunks n (drop n xs))"
  by pat_completeness auto
termination
  by (relation "measure (\<lambda>(n, xs). length xs)") auto

declare chunks.simps [simp del]

text \<open>The default collate function stacks the images of a batch, which must all have one
  shape; \<open>torch.stack\<close> raises a \<open>RuntimeError\<close> otherwise.\<close>

definition shape :: "tensor \<Rightarrow> nat \<times> nat \<times> nat" where
  "shape t = (channels t, height t, width t)"

definition default_collate :: "tensor list \<Rightarrow> error + tensor list" where
  "default_collate b =
     (if list_all (\<lambda>t. shape t = shape (hd b)) b then Inr b else Inl RuntimeError)"

text \<open>\<open>data[0].view(batch_samples, data[0].size(1), -1)\<close> for one image of the batch: each
  channel as the list of its pixels.\<close>

definition view :: "tensor \<Rightarrow> real list list" where
  "view t = [[elem t c i j. i \<leftarrow> [0..<height t], j \<leftarrow> [0..<width t]]. c \<leftarrow> [0..<channels t]]"

text \<open>\<open>mean\<close> and \<open>std\<close> along the last dimension; \<open>std\<close> divides by one less than the
  number of entries, as torch does unless told otherwise. (On fewer than two entries
  torch gives nan, which the reals do not have.)\<close>

definition tensor_mean :: "real list \<Rightarrow> real" where
  "tensor_mean xs = sum_list xs / real (length xs)"

definition tensor_std :: "real list \<Rightarrow> real" where
  "tensor_std xs =
     sqrt (sum_list (map (\<lambda>x. (x - tensor_mean xs)\<^sup>2) xs) / (real (length xs) - 1))"

text \<open>\<open>.sum(0)\<close> of a (batch, channels) matrix.\<close>

definition sum_dim0 :: "real list list \<Rightarrow> real list" where
  "sum_dim0 m =
     (case m of
        [] \<Rightarrow> []
      | r # rs \<Rightarrow> map (\<lambda>c. sum_list (map (\<lambda>row. row ! c) m)) [0..<length r])"

text \<open>
  The accumulators \<open>mean\<close> and \<open>std\<close> start as the Python float \<open>0.\<close> and are tensors from
  the first \<open>+=\<close> on. Adding to a float gives a new tensor; adding to a tensor is in place,
  so the right-hand side must have the tensor's length or length one.
\<close>

datatype acc = PyFloat real | Tensor "real list"

fun iadd :: "acc \<Rightarrow> real list \<Rightarrow> error + acc" where
  "iadd (PyFloat x) v = Inr (Tensor (map (\<lambda>y. x + y) v))"
| "iadd (Tensor a) v =
     (if length v = length a then Inr (Tensor (map2 (+) a v))
      else if length v = 1 then Inr (Tensor (map (\<lambda>x. x + hd v) a))
      else Inl RuntimeError)"

text \<open>\<open>mean /= nb_samples\<close>. Dividing the Python float by \<open>0.\<close> raises; an accumulator that
  is a tensor has seen a batch, so \<open>nb_samples\<close> is not 0 then.\<close>

fun idiv :: "acc \<Rightarrow> real \<Rightarrow> error + acc" where
  "idiv (PyFloat x) n = (if n = 0 then Inl ZeroDivisionError else Inr (PyFloat (x / n)))"
| "idiv (Tensor a) n = Inr (Tensor (map (\<lambda>x. x / n) a))"

text \<open>The loop \<open>for data in loader\<close>, on the batches still to come and the three
  variables \<open>mean\<close>, \<open>std\<close>, \<open>nb_samples\<close>.\<close>

fun meanstd_loop :: "tensor list list \<Rightarrow> acc \<times> acc \<times> real \<Rightarrow> error + acc \<times> acc \<times> real" where
  "meanstd_loop [] v = Inr v"
| "meanstd_loop (b # bs) (mean_acc, std_acc, nb_samples) =
     (case default_collate b of
        Inl e \<Rightarrow> Inl e
      | Inr data0 \<Rightarrow>
          (let batch_samples = length data0;
               data = map view data0
           in case iadd mean_acc (sum_dim0 (map (map tensor_mean) data)) of
                Inl e \<Rightarrow> Inl e
              | Inr mean_acc' \<Rightarrow>
                  (case iadd std_acc (sum_dim0 (map (map tensor_std) data)) of
                     Inl e \<Rightarrow> Inl e
                   | Inr std_acc' \<Rightarrow>
                       meanstd_loop bs (mean_acc', std_acc', nb_samples + real batch_samples))))"

text \<open>The images of a split as the loader of \<open>get_meanstd\<close> sees them: the samples of the
  folder, each passed through a copy of the given stages followed by \<open>ToTensor\<close>.\<close>

definition meanstd_images ::
  "'a env \<Rightarrow> 'a transform list \<Rightarrow> 'a transform list image_folder \<Rightarrow> tensor list" where
  "meanstd_images env tform ds = map (\<lambda>(path, target). getitem env tform path) (samples ds)"

text \<open>
  \<open>get_meanstd\<close>. The transform list is copied, so no list object of the caller changes,
  and no attribute of the object is set: the state is only read. \<open>DataLoader\<close> refuses a
  batch size that is not positive with a \<open>ValueError\<close>.
\<close>

definition get_meanstd ::
  "'a env \<Rightarrow> ref \<Rightarrow> int \<Rightarrow> string \<Rightarrow> 'a state \<Rightarrow> error + acc \<times> acc" where
  "get_meanstd env transform' batch_size dataset s =
     (let tform = store s transform' @ [ToTensor]
      in case ImageFolder env (path_join (data_dir s) dataset) tform of
           Inl e \<Rightarrow> Inl e
         | Inr ds \<Rightarrow>
             if batch_size \<le> 0 then Inl ValueError
             else
               (case meanstd_loop (chunks (nat batch_size) (meanstd_images env tform ds))
                       (PyFloat 0, PyFloat 0, 0) of
                  Inl e \<Rightarrow> Inl e
                | Inr (mean_acc, std_acc, nb_samples) \<Rightarrow>
                    (case idiv mean_acc nb_samples of
                       Inl e \<Rightarrow> Inl e
                     | Inr mean_res \<Rightarrow>
                         (case idiv std_acc nb_samples of
                            Inl e \<Rightarrow> Inl e
                          | Inr std_res \<Rightarrow> Inr (mean_res, std_res)))))"

section \<open>Notions the properties are stated with\<close>

text \<open>The events of the guarded region of \<open>load_data\<close>, up to and including the call that
  raises, when the two datasets are \<open>dtr\<close> and \<open>dva\<close>.\<close>

definition guarded_events ::
  "'a env \<Rightarrow> compose image_folder \<Rightarrow> compose image_folder \<Rightarrow> int \<Rightarrow> int \<Rightarrow> event list" where
  "guarded_events env dtr dva batch_size num_workers =
     (if DataLoader_raises env (loader dtr batch_size num_workers) \<noteq> None
      then [Construct (loader dtr batch_size num_workers)]
      else if DataLoader_raises env (loader dva batch_size num_workers) \<noteq> None
      then [Construct (loader dtr batch_size num_workers),
            Construct (loader dva batch_size num_workers)]
      else [Construct (loader dtr batch_size num_workers),
            Construct (loader dva batch_size num_workers),
            Fetch (loader dtr batch_size num_workers)])"

text \<open>The number of image files at or below an entry that lies in the directory \<open>dir\<close>.\<close>

primrec image_files :: "string \<Rightarrow> entry \<Rightarrow> nat" where
  "image_files dir (File f) = (if is_valid_file (path_join dir f) then 1 else 0)"
| "image_files dir (Dir d es) = sum_list (map (image_files (path_join dir d)) es)"

text \<open>The number of valid files among the files \<open>fs\<close> of the directory \<open>r\<close>.\<close>

definition valid_in :: "string \<times> string list \<Rightarrow> nat" where
  "valid_in = (\<lambda>(r, fs). length (filter (\<lambda>f. is_valid_file (path_join r f)) fs))"

text \<open>
  The per-channel means and standard deviations of one image, and the average over the
  images of a split of such a per-image statistic \<open>f\<close>, channel by channel.
\<close>

definition image_means :: "tensor \<Rightarrow> real list" where
  "image_means t = map tensor_mean (view t)"

definition image_stds :: "tensor \<Rightarrow> real list" where
  "image_stds t = map tensor_std (view t)"

text \<open>The sums, channel by channel, of a list of per-image rows.\<close>

definition channel_sums :: "nat \<Rightarrow> real list list \<Rightarrow> real list" where
  "channel_sums C rows = map (\<lambda>c. \<Sum>r\<leftarrow>rows. r ! c) [0..<C]"

definition mean_over_images :: "(tensor \<Rightarrow> real list) \<Rightarrow> nat \<Rightarrow> tensor list \<Rightarrow> real list" where
  "mean_over_images f C imgs = map (\<lambda>c. (\<Sum>t\<leftarrow>imgs. f t ! c) / real (length imgs)) [0..<C]"

text \<open>An accumulator read as a vector of \<open>C\<close> channels, and when it may take part in an
  addition of such vectors.\<close>

definition acc_vec :: "nat \<Rightarrow> acc \<Rightarrow> real list" where
  "acc_vec C a = (case a of PyFloat x \<Rightarrow> replicate C x | Tensor v \<Rightarrow> v)"

definition acc_ok :: "nat \<Rightarrow> acc \<Rightarrow> bool" where
  "acc_ok C a = (case a of PyFloat x \<Rightarrow> True | Tensor v \<Rightarrow> length v = C)"

text \<open>The standard deviation of each channel over all pixels of all images of a split.\<close>

definition dataset_stds :: "nat \<Rightarrow> tensor list \<Rightarrow> real list" where
  "dataset_stds C imgs = map (\<lambda>c. tensor_std (concat (map (\<lambda>t. view t ! c) imgs))) [0..<C]"

section \<open>Example inputs\<close>

definition example_store :: "ref \<Rightarrow> string transform list" where
  "example_store = (\<lambda>l. if l = 0 then [Stage ''AFMcrop''] else [])"

definition example_state :: "string state" where
  "example_state = add_transforms 0 1 [1 / 2] [1 / 4] (Dataclass ''data'' example_store)"

definition example_tree :: "string \<Rightarrow> entry list option" where
  "example_tree p =
     (if p = ''data/train'' then
        Some [Dir ''Good'' [File ''g1.png''],
              Dir ''Bad'' [File ''b1.jpg'', File ''b1.txt'', Dir ''old'' [File ''b0.PNG'']]]
      else if p = ''data/val'' then
        Some [Dir ''Bad'' [File ''b2.png''], Dir ''Good'' [File ''g2.png'']]
      else None)"

text \<open>A grey image of one channel, one row and two columns.\<close>

definition const_image :: "real \<Rightarrow> tensor" where
  "const_image v = \<lparr>channels = 1, height = 1, width = 2, elem = (\<lambda>c i j. v)\<rparr>"

text \<open>An environment over that tree; what the loaders do is left to the two arguments.\<close>

definition example_env ::
  "(data_loader \<Rightarrow> error option) \<Rightarrow> (data_loader \<Rightarrow> error + (tensor list \<times> nat list)) \<Rightarrow>
     string env" where
  "example_env r f =
     \<lparr>scandir = example_tree,
      DataLoader_raises = r,
      first_batch = f,
      getitem = (\<lambda>tf p. const_image (if p = ''data/train/Good/g1.png'' then 1 else 0)),
      make_grid = (\<lambda>ts. \<lparr>channels = 3, height = 0, width = 0, elem = (\<lambda>c i j. 0)\<rparr>)\<rparr>"

definition example_train :: "'t \<Rightarrow> 't image_folder" where
  "example_train tf =
     \<lparr>root = ''data/train'', classes = [''Bad'', ''Good''],
      samples = [(''data/train/Bad/b1.jpg'', 0), (''data/train/Bad/old/b0.PNG'', 0),
                 (''data/train/Good/g1.png'', 1)],
      transform = tf\<rparr>"

definition example_val :: "'t \<Rightarrow> 't image_folder" where
  "example_val tf =
     \<lparr>root = ''data/val'', classes = [''Bad'', ''Good''],
      samples = [(''data/val/Bad/b2.png'', 0), (''data/val/Good/g2.png'', 1)],
      transform = tf\<rparr>"

text \<open>Loaders that cannot start worker processes, at construction and at the first
  fetch.\<close>

definition no_workers_ctor :: "data_loader \<Rightarrow> error option" where
  "no_workers_ctor l = (if dl_num_workers l = 0 then None else Some RuntimeError)"

definition no_workers_fetch :: "data_loader \<Rightarrow> error + (tensor list \<times> nat list)" where
  "no_workers_fetch l = (if dl_num_workers l = 0 then Inr ([], []) else Inl RuntimeError)"

section \<open>Properties of \<open>add_transforms\<close>\<close>

lemma pipeline_add_transforms_train:
  "pipeline (add_transforms tt tv m sd s) ''train'' =
     Some (store (add_transforms tt tv m sd s) tt)"
  by (simp add: pipeline_def add_transforms_def Let_def extend_def)

lemma pipeline_add_transforms_val:
  "pipeline (add_transforms tt tv m sd s) ''val'' =
     Some (store (add_transforms tt tv m sd s) tv)"
  by (simp add: pipeline_def add_transforms_def Let_def extend_def)

lemma store_add_transforms:
  "store (add_transforms tt tv m sd s) l =
     (if l = tv \<and> l = tt then store s l @ [ToTensor, Normalize m sd, ToTensor, Normalize m sd]
      else if l = tv \<or> l = tt then store s l @ [ToTensor, Normalize m sd]
      else store s l)"
  by (simp add: add_transforms_def Let_def extend_def)

text \<open>
  C3. Whatever two lists the caller passes (the same list object twice included) and
  whatever mean and std, after \<open>add_transforms\<close> the "train" and the "val" pipeline both
  end with the two stages to-tensor, then normalize by (mean, std).
\<close>

theorem add_transforms_last_two_stages:
  "\<exists>xs ys.
     pipeline (add_transforms tt tv m sd s) ''train'' = Some (xs @ [ToTensor, Normalize m sd]) \<and>
     pipeline (add_transforms tt tv m sd s) ''val'' = Some (ys @ [ToTensor, Normalize m sd])"
proof (cases "tt = tv")
  case True
  have "store (add_transforms tt tv m sd s) tv =
          (store s tv @ [ToTensor, Normalize m sd]) @ [ToTensor, Normalize m sd]"
    using True by (simp add: store_add_transforms)
  then show ?thesis
    using True pipeline_add_transforms_train [of tt tv m sd s]
      pipeline_add_transforms_val [of tt tv m sd s] by metis
next
  case False
  have "store (add_transforms tt tv m sd s) tt = store s tt @ [ToTensor, Normalize m sd]"
    and "store (add_transforms tt tv m sd s) tv = store s tv @ [ToTensor, Normalize m sd]"
    using False by (simp_all add: store_add_transforms)
  then show ?thesis
    using pipeline_add_transforms_train [of tt tv m sd s]
      pipeline_add_transforms_val [of tt tv m sd s] by metis
qed

text \<open>
  C6. Called with two list objects, \<open>add_transforms\<close> changes them in place: each has
  to-tensor, then normalize by (mean, std), appended to what it held; no other list
  object changes; and mean and std are stored on the object.
\<close>

theorem add_transforms_mutates_caller_lists:
  assumes "tt \<noteq> tv"
  shows "store (add_transforms tt tv m sd s) tt = store s tt @ [ToTensor, Normalize m sd] \<and>
         store (add_transforms tt tv m sd s) tv = store s tv @ [ToTensor, Normalize m sd] \<and>
         (\<forall>l. l \<noteq> tt \<and> l \<noteq> tv \<longrightarrow> store (add_transforms tt tv m sd s) l = store s l) \<and>
         mean (add_transforms tt tv m sd s) = Some m \<and>
         std (add_transforms tt tv m sd s) = Some sd"
  using assms by (simp add: store_add_transforms) (simp add: add_transforms_def Let_def extend_def)

theorem add_transforms_mutates_caller_lists_witness:
  "(0::nat) \<noteq> 1 \<and>
   store (add_transforms 0 1 [1 / 2] [1 / 4] (Dataclass ''data'' example_store)) 0 =
     [Stage ''AFMcrop'', ToTensor, Normalize [1 / 2] [1 / 4]] \<and>
   store (add_transforms 0 1 [1 / 2] [1 / 4] (Dataclass ''data'' example_store)) 1 =
     [ToTensor, Normalize [1 / 2] [1 / 4]] \<and>
   store (add_transforms 0 1 [1 / 2] [1 / 4] (Dataclass ''data'' example_store)) 2 = [] \<and>
   mean (add_transforms 0 1 [1 / 2] [1 / 4] (Dataclass ''data'' example_store)) = Some [1 / 2] \<and>
   std (add_transforms 0 1 [1 / 2] [1 / 4] (Dataclass ''data'' example_store)) = Some [1 / 4]"
  using add_transforms_mutates_caller_lists
    [of 0 1 "[1 / 2]" "[1 / 4]" "Dataclass ''data'' example_store"]
  by (simp add: Dataclass_def example_store_def)

text \<open>
  C9. When one list object is passed for both arguments, both appends reach it, and both
  pipelines are that list: what it held, followed by to-tensor, normalize, to-tensor,
  normalize.
\<close>

theorem add_transforms_aliased_lists:
  "pipeline (add_transforms l l m sd s) ''train'' =
     Some (store s l @ [ToTensor, Normalize m sd, ToTensor, Normalize m sd]) \<and>
   pipeline (add_transforms l l m sd s) ''val'' =
     Some (store s l @ [ToTensor, Normalize m sd, ToTensor, Normalize m sd])"
  by (simp add: pipeline_add_transforms_train pipeline_add_transforms_val store_add_transforms)

section \<open>Properties of \<open>ImageFolder\<close>\<close>

text \<open>Sorting changes neither a sum over a list nor how many elements pass a test.\<close>

lemma sum_list_sort_key:
  fixes g :: "'a \<Rightarrow> nat"
  shows "sum_list (map g (sort_key k xs)) = sum_list (map g xs)"
proof -
  have "sum_mset (mset (map g (sort_key k xs))) = sum_mset (mset (map g xs))"
    by simp
  then show ?thesis
    by (simp only: sum_mset_sum_list)
qed

lemma length_filter_sort: "length (filter P (sort xs)) = length (filter P xs)"
proof -
  have "mset (filter P (sort xs)) = mset (filter P xs)"
    by simp
  then show ?thesis
    by (metis size_mset)
qed

lemma sum_list_if_singleton:
  "(\<Sum>x\<leftarrow>ys. length (if P x then [h x] else [])) = length (filter P ys)"
  by (induction ys) simp_all

lemma length_class_instances:
  "length (class_instances dir e i) = sum_list (map valid_in (walk_entry dir e))"
proof -
  have "length (class_instances dir e i) =
          sum_list (map (\<lambda>x. length (filter (\<lambda>f. is_valid_file (path_join (fst x) f)) (sort (snd x))))
            (sort_key fst (walk_entry dir e)))"
    unfolding class_instances_def
    by (simp add: length_concat comp_def case_prod_unfold sum_list_if_singleton)
  also have "\<dots> = sum_list (map valid_in (sort_key fst (walk_entry dir e)))"
    by (simp add: valid_in_def case_prod_unfold length_filter_sort)
  also have "\<dots> = sum_list (map valid_in (walk_entry dir e))"
    by (rule sum_list_sort_key)
  finally show ?thesis .
qed

lemma valid_in_files:
  "valid_in (r, [f. File f \<leftarrow> es]) =
     (\<Sum>e\<leftarrow>es. case e of File f \<Rightarrow> if is_valid_file (path_join r f) then 1 else 0 | Dir d sub \<Rightarrow> 0)"
  by (induction es) (auto simp add: valid_in_def split: entry.splits)

lemma sum_walk_entry:
  "sum_list (map valid_in (walk_entry dir e)) +
     (case e of File f \<Rightarrow> if is_valid_file (path_join dir f) then 1 else 0 | Dir d sub \<Rightarrow> 0) =
   image_files dir e"
proof (induction e arbitrary: dir)
  case (File f)
  show ?case by simp
next
  case (Dir d es)
  have "sum_list (map valid_in (concat (map (walk_entry (path_join dir d)) es))) +
          valid_in (path_join dir d, [f. File f \<leftarrow> es]) =
        sum_list (map (image_files (path_join dir d)) es)"
    using Dir.IH unfolding valid_in_files
  proof (induction es)
    case Nil
    show ?case by simp
  next
    case (Cons e es)
    have "sum_list (map valid_in (walk_entry (path_join dir d) e)) +
            (case e of File f \<Rightarrow> if is_valid_file (path_join (path_join dir d) f) then 1 else 0
             | Dir d sub \<Rightarrow> 0) = image_files (path_join dir d) e"
      using Cons.prems by simp
    moreover have "sum_list (map valid_in (concat (map (walk_entry (path_join dir d)) es))) +
          (\<Sum>e\<leftarrow>es. case e of
             File f \<Rightarrow> if is_valid_file (path_join (path_join dir d) f) then 1 else 0
           | Dir d sub \<Rightarrow> 0) =
        sum_list (map (image_files (path_join dir d)) es)"
      using Cons.IH Cons.prems by simp
    ultimately show ?case
      by simp
  qed
  then show ?case by simp
qed

lemma length_class_instances_Dir:
  "length (class_instances dir (Dir d es) i) = image_files dir (Dir d es)"
  using sum_walk_entry [of dir "Dir d es"] by (simp add: length_class_instances)

lemma ImageFolder_Bad_Good:
  assumes "scandir env dir = Some es"
    and "es = [Dir ''Bad'' b, Dir ''Good'' g] \<or> es = [Dir ''Good'' g, Dir ''Bad'' b]"
    and "0 < image_files dir (Dir ''Bad'' b)" and "0 < image_files dir (Dir ''Good'' g)"
  shows "\<exists>ds. ImageFolder env dir tf = Inr ds \<and> classes ds = [''Bad'', ''Good''] \<and>
           length (samples ds) = image_files dir (Dir ''Bad'' b) + image_files dir (Dir ''Good'' g)"
proof -
  have ne: "class_instances dir (Dir ''Bad'' b) i \<noteq> []" "class_instances dir (Dir ''Good'' g) i \<noteq> []" for i
    using assms(3,4) length_class_instances_Dir [of dir _ _ i]
    by (metis length_0_conv less_numeral_extra(3))+
  have srt: "sort [''Bad'', ''Good''] = [''Bad'', ''Good'']" "sort [''Good'', ''Bad''] = [''Bad'', ''Good'']"
    by simp_all
  from assms(2) show ?thesis
  proof
    assume "es = [Dir ''Bad'' b, Dir ''Good'' g]"
    then show ?thesis
      using assms(1) ne
      by (simp add: ImageFolder_def srt Let_def length_class_instances_Dir del: image_files.simps sort_key_simps)
  next
    assume "es = [Dir ''Good'' g, Dir ''Bad'' b]"
    then show ?thesis
      using assms(1) ne
      by (simp add: ImageFolder_def srt Let_def length_class_instances_Dir del: image_files.simps sort_key_simps)
  qed
qed

lemma ImageFolder_samples_nonempty:
  assumes "ImageFolder env dir tf = Inr ds"
  shows "samples ds \<noteq> []"
proof -
  from assms obtain es where es: "scandir env dir = Some es"
    by (cases "scandir env dir") (simp_all add: ImageFolder_def)
  define cls where "cls = sort [d. Dir d sub \<leftarrow> es]"
  define inst where
    "inst = map (\<lambda>(i, c). concat [class_instances dir (Dir d sub) i. Dir d sub \<leftarrow> es, d = c])
              (enumerate 0 cls)"
  have eq: "ImageFolder env dir tf =
      (if cls = [] \<or> list_ex (\<lambda>i. i = []) inst then Inl FileNotFoundError
       else Inr \<lparr>root = dir, classes = cls, samples = concat inst, transform = tf\<rparr>)"
    by (simp only: ImageFolder_def es option.case Let_def cls_def inst_def)
  show ?thesis
  proof (cases "cls = [] \<or> list_ex (\<lambda>i. i = []) inst")
    case True
    with eq assms show ?thesis by simp
  next
    case False
    with eq assms have ds: "samples ds = concat inst" by auto
    have "length inst = length cls" by (simp add: inst_def)
    with False obtain x xs where x: "inst = x # xs" by (cases inst) auto
    with False have "x \<noteq> []" by simp
    with x ds show ?thesis by simp
  qed
qed

section \<open>Properties of \<open>load_data\<close>\<close>

text \<open>What each part of \<open>load_data\<close> returns once both datasets exist.\<close>

lemma datasets_ok:
  assumes "data_transforms s = Some dt" and "dt ''train'' = Some ctr" and "dt ''val'' = Some cva"
    and "ImageFolder env (path_join (data_dir s) ''train'') ctr = Inr dtr"
    and "ImageFolder env (path_join (data_dir s) ''val'') cva = Inr dva"
  shows "dict_comp (new_dataset env) [''train'', ''val''] Map.empty s =
           (Inr [''train'' \<mapsto> dtr, ''val'' \<mapsto> dva], s)"
  using assms by (simp add: new_dataset_def)

lemma loaders_result:
  assumes "image_datasets s = Some [''train'' \<mapsto> dtr, ''val'' \<mapsto> dva]"
  shows "dict_comp (new_loader env bs nw) [''train'', ''val''] Map.empty s =
     (case DataLoader_raises env (loader dtr bs nw) of
        Some e \<Rightarrow> (Inl e, s\<lparr>trace := trace s @ [Construct (loader dtr bs nw)]\<rparr>)
      | None \<Rightarrow>
          (case DataLoader_raises env (loader dva bs nw) of
             Some e \<Rightarrow>
               (Inl e, s\<lparr>trace := trace s @ [Construct (loader dtr bs nw), Construct (loader dva bs nw)]\<rparr>)
           | None \<Rightarrow>
               (Inr [''train'' \<mapsto> loader dtr bs nw, ''val'' \<mapsto> loader dva bs nw],
                s\<lparr>trace := trace s @ [Construct (loader dtr bs nw), Construct (loader dva bs nw)]\<rparr>)))"
  using assms by (simp add: new_loader_def Let_def split: option.splits)

lemma store_sizes_result:
  assumes "image_datasets s = Some [''train'' \<mapsto> dtr, ''val'' \<mapsto> dva]"
  shows "store_sizes s =
     (Inr (), s\<lparr>dataset_sizes := Some [''train'' \<mapsto> length (samples dtr), ''val'' \<mapsto> length (samples dva)],
               class_names := Some (classes dtr)\<rparr>)"
  using assms by (simp add: store_sizes_def dataset_len_def Let_def)

lemma try_body_result:
  assumes "image_datasets s = Some [''train'' \<mapsto> dtr, ''val'' \<mapsto> dva]"
  shows "try_body env bs nw s =
     (case DataLoader_raises env (loader dtr bs nw) of
        Some e \<Rightarrow> (Inl e, s\<lparr>trace := trace s @ [Construct (loader dtr bs nw)]\<rparr>)
      | None \<Rightarrow>
          (case DataLoader_raises env (loader dva bs nw) of
             Some e \<Rightarrow>
               (Inl e, s\<lparr>trace := trace s @ [Construct (loader dtr bs nw), Construct (loader dva bs nw)]\<rparr>)
           | None \<Rightarrow>
               (case first_batch env (loader dtr bs nw) of
                  Inl e \<Rightarrow>
                    (Inl e,
                     s\<lparr>dataloaders := Some [''train'' \<mapsto> loader dtr bs nw, ''val'' \<mapsto> loader dva bs nw],
                       trace := trace s @ [Construct (loader dtr bs nw), Construct (loader dva bs nw),
                                           Fetch (loader dtr bs nw)]\<rparr>)
                | Inr b \<Rightarrow>
                    (Inr (),
                     s\<lparr>dataloaders := Some [''train'' \<mapsto> loader dtr bs nw, ''val'' \<mapsto> loader dva bs nw],
                       trace := trace s @ [Construct (loader dtr bs nw), Construct (loader dva bs nw),
                                           Fetch (loader dtr bs nw)]\<rparr>))))"
  unfolding try_body_def loaders_result [OF assms]
  by (simp add: get_batchdata_def Let_def split: option.splits sum.splits prod.splits)

lemma handler_result:
  assumes "image_datasets s = Some [''train'' \<mapsto> dtr, ''val'' \<mapsto> dva]"
  shows "handler env bs s =
     (case DataLoader_raises env (loader dtr bs 0) of
        Some e \<Rightarrow> (Inl e, s\<lparr>trace := trace s @ [Print warning, Construct (loader dtr bs 0)]\<rparr>)
      | None \<Rightarrow>
          (case DataLoader_raises env (loader dva bs 0) of
             Some e \<Rightarrow>
               (Inl e,
                s\<lparr>trace := trace s @ [Print warning, Construct (loader dtr bs 0), Construct (loader dva bs 0)]\<rparr>)
           | None \<Rightarrow>
               (Inr (),
                s\<lparr>dataloaders := Some [''train'' \<mapsto> loader dtr bs 0, ''val'' \<mapsto> loader dva bs 0],
                  trace := trace s @ [Print warning, Construct (loader dtr bs 0), Construct (loader dva bs 0)]\<rparr>)))"
proof -
  have *: "image_datasets (s\<lparr>trace := trace s @ [Print warning]\<rparr>) =
          Some [''train'' \<mapsto> dtr, ''val'' \<mapsto> dva]"
    using assms by simp
  show ?thesis
    unfolding handler_def loaders_result [OF *]
    by (simp split: option.splits)
qed

lemma load_data_unfold:
  assumes "data_transforms s = Some dt" and "dt ''train'' = Some ctr" and "dt ''val'' = Some cva"
    and "ImageFolder env (path_join (data_dir s) ''train'') ctr = Inr dtr"
    and "ImageFolder env (path_join (data_dir s) ''val'') cva = Inr dva"
  shows "load_data env bs nw s =
     (case try_body env bs nw (s\<lparr>image_datasets := Some [''train'' \<mapsto> dtr, ''val'' \<mapsto> dva]\<rparr>) of
        (Inr u, s2) \<Rightarrow> store_sizes s2
      | (Inl e, s2) \<Rightarrow>
          if e = RuntimeError then
            (case handler env bs s2 of
               (Inl e', s3) \<Rightarrow> (Inl e', s3)
             | (Inr u, s3) \<Rightarrow> store_sizes s3)
          else (Inl e, s2))"
  unfolding load_data_def datasets_ok [OF assms]
  by simp

lemma load_data_records:
  assumes "data_transforms s = Some dt" and "dt ''train'' = Some ctr" and "dt ''val'' = Some cva"
    and "ImageFolder env (path_join (data_dir s) ''train'') ctr = Inr dtr"
    and "ImageFolder env (path_join (data_dir s) ''val'') cva = Inr dva"
    and "load_data env bs nw s = (Inr (), s')"
  shows "class_names s' = Some (classes dtr) \<and>
         dataset_sizes s' = Some [''train'' \<mapsto> length (samples dtr), ''val'' \<mapsto> length (samples dva)]"
  using assms(6)
  by (auto simp add: load_data_unfold [OF assms(1-5)] try_body_result handler_result
      store_sizes_result split: option.splits sum.splits if_splits)

lemma load_data_returns:
  assumes "data_transforms s = Some dt" and "dt ''train'' = Some ctr" and "dt ''val'' = Some cva"
    and "ImageFolder env (path_join (data_dir s) ''train'') ctr = Inr dtr"
    and "ImageFolder env (path_join (data_dir s) ''val'') cva = Inr dva"
    and "\<forall>l. DataLoader_raises env l = None"
    and "\<forall>l e. first_batch env l = Inl e \<longrightarrow> e = RuntimeError"
  shows "\<exists>s'. load_data env bs nw s = (Inr (), s')"
proof (cases "first_batch env (loader dtr bs nw)")
  case (Inl e)
  with assms(7) have "first_batch env (loader dtr bs nw) = Inl RuntimeError"
    by blast
  then show ?thesis
    using assms(6)
    by (simp add: load_data_unfold [OF assms(1-5)] try_body_result handler_result
        store_sizes_result)
next
  case (Inr b)
  then show ?thesis
    using assms(6)
    by (simp add: load_data_unfold [OF assms(1-5)] try_body_result store_sizes_result)
qed

text \<open>The example inputs evaluated.\<close>

lemma is_valid_file_examples:
  "is_valid_file ''data/train/Good/g1.png''" "is_valid_file ''data/train/Bad/b1.jpg''"
  "\<not> is_valid_file ''data/train/Bad/b1.txt''" "is_valid_file ''data/train/Bad/old/b0.PNG''"
  "is_valid_file ''data/val/Bad/b2.png''" "is_valid_file ''data/val/Good/g2.png''"
  by (simp_all add: is_valid_file_def IMG_EXTENSIONS_def endswith_def lower_char_def)

lemma ImageFolder_example_train:
  "ImageFolder (example_env r f) ''data/train'' tf = Inr (example_train tf)"
  by (simp add: ImageFolder_def example_env_def example_tree_def class_instances_def path_join_def
      is_valid_file_examples Let_def example_train_def)

lemma ImageFolder_example_val:
  "ImageFolder (example_env r f) ''data/val'' tf = Inr (example_val tf)"
  by (simp add: ImageFolder_def example_env_def example_tree_def class_instances_def path_join_def
      is_valid_file_examples Let_def example_val_def)

lemma example_state_simps:
  "data_transforms example_state = Some [''train'' \<mapsto> Compose 0, ''val'' \<mapsto> Compose 1]"
  "data_dir example_state = ''data''"
  "trace example_state = []"
  by (simp_all add: example_state_def add_transforms_def extend_def Dataclass_def Let_def)

lemma example_paths:
  "path_join ''data'' ''train'' = ''data/train''" "path_join ''data'' ''val'' = ''data/val''"
  by (simp_all add: path_join_def)

lemma example_env_simps:
  "scandir (example_env r f) = example_tree" "DataLoader_raises (example_env r f) = r"
  "first_batch (example_env r f) = f"
  by (simp_all add: example_env_def)

lemma example_folder_simps:
  "length (samples (example_train tf)) = 3" "length (samples (example_val tf)) = 2"
  "classes (example_train tf) = [''Bad'', ''Good'']" "root (example_train tf) = ''data/train''"
  "root (example_val tf) = ''data/val''"
  by (simp_all add: example_train_def example_val_def)

lemma loader_simps:
  "dl_num_workers (loader d bs nw) = nw" "dl_dataset (loader d bs nw) = d"
  by (simp_all add: loader_def)

text \<open>
  C2. Let both datasets load. If constructing the loaders with the given worker count
  raises a \<open>RuntimeError\<close> (for "train", or for "val" after "train" was built), then
  \<open>load_data\<close> prints the warning and constructs the two loaders once more, with 0
  workers. When those two constructions do not raise, \<open>load_data\<close> returns normally: the
  0-worker loaders are stored, the dataset sizes and the class names are recorded, and
  the trace shows the failed attempt, the warning and exactly one retry. When a
  construction of the retry raises, that exception reaches the caller and nothing is
  tried again.
\<close>

theorem load_data_fallback:
  assumes "data_transforms s = Some dt" and "dt ''train'' = Some ctr" and "dt ''val'' = Some cva"
    and "ImageFolder env (path_join (data_dir s) ''train'') ctr = Inr dtr"
    and "ImageFolder env (path_join (data_dir s) ''val'') cva = Inr dva"
    and "DataLoader_raises env (loader dtr bs nw) = Some RuntimeError \<or>
         DataLoader_raises env (loader dtr bs nw) = None \<and>
         DataLoader_raises env (loader dva bs nw) = Some RuntimeError"
  shows "(DataLoader_raises env (loader dtr bs 0) = None \<and>
          DataLoader_raises env (loader dva bs 0) = None \<longrightarrow>
            (\<exists>s'. load_data env bs nw s = (Inr (), s') \<and>
               dataloaders s' = Some [''train'' \<mapsto> loader dtr bs 0, ''val'' \<mapsto> loader dva bs 0] \<and>
               dataset_sizes s' =
                 Some [''train'' \<mapsto> length (samples dtr), ''val'' \<mapsto> length (samples dva)] \<and>
               class_names s' = Some (classes dtr) \<and>
               trace s' = trace s @ guarded_events env dtr dva bs nw @
                 [Print warning, Construct (loader dtr bs 0), Construct (loader dva bs 0)])) \<and>
         (\<forall>e. DataLoader_raises env (loader dtr bs 0) = Some e \<longrightarrow>
            (\<exists>s'. load_data env bs nw s = (Inl e, s') \<and>
               trace s' = trace s @ guarded_events env dtr dva bs nw @
                 [Print warning, Construct (loader dtr bs 0)])) \<and>
         (\<forall>e. DataLoader_raises env (loader dtr bs 0) = None \<and>
              DataLoader_raises env (loader dva bs 0) = Some e \<longrightarrow>
            (\<exists>s'. load_data env bs nw s = (Inl e, s') \<and>
               trace s' = trace s @ guarded_events env dtr dva bs nw @
                 [Print warning, Construct (loader dtr bs 0), Construct (loader dva bs 0)]))"
  using assms(6)
  by (auto simp add: load_data_unfold [OF assms(1-5)] try_body_result handler_result
      store_sizes_result guarded_events_def)

theorem load_data_fallback_witness:
  "(\<exists>s'. load_data (example_env no_workers_ctor no_workers_fetch) 4 2 example_state = (Inr (), s') \<and>
      dataloaders s' =
        Some [''train'' \<mapsto> loader (example_train (Compose 0)) 4 0,
              ''val'' \<mapsto> loader (example_val (Compose 1)) 4 0] \<and>
      dataset_sizes s' = Some [''train'' \<mapsto> 3, ''val'' \<mapsto> 2] \<and>
      class_names s' = Some [''Bad'', ''Good''] \<and>
      trace s' =
        [Construct (loader (example_train (Compose 0)) 4 2), Print warning,
         Construct (loader (example_train (Compose 0)) 4 0),
         Construct (loader (example_val (Compose 1)) 4 0)]) \<and>
   (\<exists>s'. load_data (example_env (\<lambda>l. Some RuntimeError) no_workers_fetch) 4 2 example_state =
        (Inl RuntimeError, s') \<and>
      trace s' =
        [Construct (loader (example_train (Compose 0)) 4 2), Print warning,
         Construct (loader (example_train (Compose 0)) 4 0)]) \<and>
   (\<exists>s'. load_data
        (example_env (\<lambda>l. if root (dl_dataset l) = ''data/train'' \<and> dl_num_workers l = 0 then None
                           else Some RuntimeError) no_workers_fetch) 4 2 example_state =
        (Inl RuntimeError, s') \<and>
      trace s' =
        [Construct (loader (example_train (Compose 0)) 4 2), Print warning,
         Construct (loader (example_train (Compose 0)) 4 0),
         Construct (loader (example_val (Compose 1)) 4 0)])"
proof -
  let ?dt = "[''train'' \<mapsto> Compose 0, ''val'' \<mapsto> Compose 1]"
  let ?r3 = "\<lambda>l. if root (dl_dataset l) = ''data/train'' \<and> dl_num_workers l = 0 then None
                  else Some RuntimeError"
  have dt: "data_transforms example_state = Some ?dt" "?dt ''train'' = Some (Compose 0)"
    "?dt ''val'' = Some (Compose 1)"
    by (simp_all add: example_state_simps)
  have tr: "ImageFolder (example_env r f) (path_join (data_dir example_state) ''train'') (Compose 0) =
              Inr (example_train (Compose 0))" for r f
    by (simp add: example_state_simps example_paths ImageFolder_example_train)
  have va: "ImageFolder (example_env r f) (path_join (data_dir example_state) ''val'') (Compose 1) =
              Inr (example_val (Compose 1))" for r f
    by (simp add: example_state_simps example_paths ImageFolder_example_val)
  have a: "DataLoader_raises (example_env no_workers_ctor no_workers_fetch)
             (loader (example_train (Compose 0)) 4 2) = Some RuntimeError \<or>
           DataLoader_raises (example_env no_workers_ctor no_workers_fetch)
             (loader (example_train (Compose 0)) 4 2) = None \<and>
           DataLoader_raises (example_env no_workers_ctor no_workers_fetch)
             (loader (example_val (Compose 1)) 4 2) = Some RuntimeError"
    by (simp add: example_env_simps no_workers_ctor_def loader_simps)
  have b: "DataLoader_raises (example_env (\<lambda>l. Some RuntimeError) no_workers_fetch)
             (loader (example_train (Compose 0)) 4 2) = Some RuntimeError \<or>
           DataLoader_raises (example_env (\<lambda>l. Some RuntimeError) no_workers_fetch)
             (loader (example_train (Compose 0)) 4 2) = None \<and>
           DataLoader_raises (example_env (\<lambda>l. Some RuntimeError) no_workers_fetch)
             (loader (example_val (Compose 1)) 4 2) = Some RuntimeError"
    by (simp add: example_env_simps)
  have c: "DataLoader_raises (example_env ?r3 no_workers_fetch)
             (loader (example_train (Compose 0)) 4 2) = Some RuntimeError \<or>
           DataLoader_raises (example_env ?r3 no_workers_fetch)
             (loader (example_train (Compose 0)) 4 2) = None \<and>
           DataLoader_raises (example_env ?r3 no_workers_fetch)
             (loader (example_val (Compose 1)) 4 2) = Some RuntimeError"
    by (simp add: example_env_simps loader_simps example_folder_simps)
  show ?thesis
    using load_data_fallback [OF dt tr va a] load_data_fallback [OF dt tr va b]
      load_data_fallback [OF dt tr va c]
    by (simp add: example_env_simps no_workers_ctor_def loader_simps guarded_events_def
        example_state_simps example_folder_simps)
qed

text \<open>
  C10. Let both datasets load. The guarded region is the two constructions and the fetch
  of one batch from the "train" loader.
  \<^item> A \<open>RuntimeError\<close> raised by that fetch leads to the fallback: the warning, then the two
    constructions with 0 workers, after which no batch is fetched.
  \<^item> An exception that is no \<open>RuntimeError\<close>, raised anywhere in the guarded region, reaches
    the caller; nothing is printed and nothing is retried.
  \<^item> When nothing is raised there is no fallback: the loaders keep the given worker
    count.
\<close>

theorem load_data_guarded_region:
  assumes "data_transforms s = Some dt" and "dt ''train'' = Some ctr" and "dt ''val'' = Some cva"
    and "ImageFolder env (path_join (data_dir s) ''train'') ctr = Inr dtr"
    and "ImageFolder env (path_join (data_dir s) ''val'') cva = Inr dva"
  shows "(DataLoader_raises env (loader dtr bs nw) = None \<and>
          DataLoader_raises env (loader dva bs nw) = None \<and>
          first_batch env (loader dtr bs nw) = Inl RuntimeError \<and>
          DataLoader_raises env (loader dtr bs 0) = None \<and>
          DataLoader_raises env (loader dva bs 0) = None \<longrightarrow>
            (\<exists>s'. load_data env bs nw s = (Inr (), s') \<and>
               dataloaders s' = Some [''train'' \<mapsto> loader dtr bs 0, ''val'' \<mapsto> loader dva bs 0] \<and>
               trace s' = trace s @
                 [Construct (loader dtr bs nw), Construct (loader dva bs nw), Fetch (loader dtr bs nw),
                  Print warning, Construct (loader dtr bs 0), Construct (loader dva bs 0)])) \<and>
         (\<forall>e. e \<noteq> RuntimeError \<and>
              (DataLoader_raises env (loader dtr bs nw) = Some e \<or>
               DataLoader_raises env (loader dtr bs nw) = None \<and>
               DataLoader_raises env (loader dva bs nw) = Some e \<or>
               DataLoader_raises env (loader dtr bs nw) = None \<and>
               DataLoader_raises env (loader dva bs nw) = None \<and>
               first_batch env (loader dtr bs nw) = Inl e) \<longrightarrow>
            (\<exists>s'. load_data env bs nw s = (Inl e, s') \<and>
               trace s' = trace s @ guarded_events env dtr dva bs nw)) \<and>
         (\<forall>b. DataLoader_raises env (loader dtr bs nw) = None \<and>
              DataLoader_raises env (loader dva bs nw) = None \<and>
              first_batch env (loader dtr bs nw) = Inr b \<longrightarrow>
            (\<exists>s'. load_data env bs nw s = (Inr (), s') \<and>
               dataloaders s' = Some [''train'' \<mapsto> loader dtr bs nw, ''val'' \<mapsto> loader dva bs nw] \<and>
               trace s' = trace s @
                 [Construct (loader dtr bs nw), Construct (loader dva bs nw),
                  Fetch (loader dtr bs nw)]))"
  by (auto simp add: load_data_unfold [OF assms] try_body_result handler_result
      store_sizes_result guarded_events_def)

theorem load_data_guarded_region_witness:
  "(\<exists>s'. load_data (example_env (\<lambda>l. None) no_workers_fetch) 4 2 example_state = (Inr (), s') \<and>
      dataloaders s' =
        Some [''train'' \<mapsto> loader (example_train (Compose 0)) 4 0,
              ''val'' \<mapsto> loader (example_val (Compose 1)) 4 0] \<and>
      trace s' =
        [Construct (loader (example_train (Compose 0)) 4 2),
         Construct (loader (example_val (Compose 1)) 4 2),
         Fetch (loader (example_train (Compose 0)) 4 2), Print warning,
         Construct (loader (example_train (Compose 0)) 4 0),
         Construct (loader (example_val (Compose 1)) 4 0)]) \<and>
   (\<exists>s'. load_data (example_env (\<lambda>l. Some ValueError) no_workers_fetch) 4 2 example_state =
        (Inl ValueError, s') \<and>
      trace s' = [Construct (loader (example_train (Compose 0)) 4 2)]) \<and>
   (\<exists>s'. load_data (example_env (\<lambda>l. None) (\<lambda>l. Inl (OtherError ''OSError''))) 4 2 example_state =
        (Inl (OtherError ''OSError''), s') \<and>
      trace s' =
        [Construct (loader (example_train (Compose 0)) 4 2),
         Construct (loader (example_val (Compose 1)) 4 2),
         Fetch (loader (example_train (Compose 0)) 4 2)]) \<and>
   (\<exists>s'. load_data (example_env (\<lambda>l. None) (\<lambda>l. Inr ([], []))) 4 2 example_state = (Inr (), s') \<and>
      dataloaders s' =
        Some [''train'' \<mapsto> loader (example_train (Compose 0)) 4 2,
              ''val'' \<mapsto> loader (example_val (Compose 1)) 4 2] \<and>
      trace s' =
        [Construct (loader (example_train (Compose 0)) 4 2),
         Construct (loader (example_val (Compose 1)) 4 2),
         Fetch (loader (example_train (Compose 0)) 4 2)])"
proof -
  let ?dt = "[''train'' \<mapsto> Compose 0, ''val'' \<mapsto> Compose 1]"
  have dt: "data_transforms example_state = Some ?dt" "?dt ''train'' = Some (Compose 0)"
    "?dt ''val'' = Some (Compose 1)"
    by (simp_all add: example_state_simps)
  have tr: "ImageFolder (example_env r f) (path_join (data_dir example_state) ''train'') (Compose 0) =
              Inr (example_train (Compose 0))" for r f
    by (simp add: example_state_simps example_paths ImageFolder_example_train)
  have va: "ImageFolder (example_env r f) (path_join (data_dir example_state) ''val'') (Compose 1) =
              Inr (example_val (Compose 1))" for r f
    by (simp add: example_state_simps example_paths ImageFolder_example_val)
  show ?thesis
    using load_data_guarded_region
        [OF dt tr va, of "\<lambda>l. None" no_workers_fetch 4 2]
      load_data_guarded_region
        [OF dt tr va, of "\<lambda>l. Some ValueError" no_workers_fetch 4 2, THEN conjunct2, THEN conjunct1,
         THEN spec, of ValueError]
      load_data_guarded_region
        [OF dt tr va, of "\<lambda>l. None" "\<lambda>l. Inl (OtherError ''OSError'')" 4 2, THEN conjunct2,
         THEN conjunct1, THEN spec, of "OtherError ''OSError''"]
      load_data_guarded_region
        [OF dt tr va, of "\<lambda>l. None" "\<lambda>l. Inr ([], [])" 4 2]
    by (simp add: example_env_simps no_workers_fetch_def loader_simps guarded_events_def
        example_state_simps)
qed

text \<open>
  C7. Let the "train" and the "val" directory each hold exactly the two class directories
  "Bad" and "Good" (in either listing order), each with at least one image file at or
  below it. Whenever \<open>load_data\<close> returns, the class names are ["Bad", "Good"] and the
  size recorded for each split is the number of image files of the split. It does return
  when no loader construction raises and the first fetch raises nothing but a
  \<open>RuntimeError\<close>.
\<close>

theorem load_data_Bad_Good:
  assumes "data_transforms s = Some dt" and "dt ''train'' = Some ctr" and "dt ''val'' = Some cva"
    and "scandir env (path_join (data_dir s) ''train'') = Some tr"
    and "tr = [Dir ''Bad'' b1, Dir ''Good'' g1] \<or> tr = [Dir ''Good'' g1, Dir ''Bad'' b1]"
    and "0 < image_files (path_join (data_dir s) ''train'') (Dir ''Bad'' b1)"
    and "0 < image_files (path_join (data_dir s) ''train'') (Dir ''Good'' g1)"
    and "scandir env (path_join (data_dir s) ''val'') = Some va"
    and "va = [Dir ''Bad'' b2, Dir ''Good'' g2] \<or> va = [Dir ''Good'' g2, Dir ''Bad'' b2]"
    and "0 < image_files (path_join (data_dir s) ''val'') (Dir ''Bad'' b2)"
    and "0 < image_files (path_join (data_dir s) ''val'') (Dir ''Good'' g2)"
  shows "(\<forall>s'. load_data env bs nw s = (Inr (), s') \<longrightarrow>
            class_names s' = Some [''Bad'', ''Good''] \<and>
            dataset_sizes s' =
              Some [''train'' \<mapsto> image_files (path_join (data_dir s) ''train'') (Dir ''Bad'' b1) +
                                image_files (path_join (data_dir s) ''train'') (Dir ''Good'' g1),
                    ''val'' \<mapsto> image_files (path_join (data_dir s) ''val'') (Dir ''Bad'' b2) +
                              image_files (path_join (data_dir s) ''val'') (Dir ''Good'' g2)]) \<and>
         ((\<forall>l. DataLoader_raises env l = None) \<and>
          (\<forall>l e. first_batch env l = Inl e \<longrightarrow> e = RuntimeError) \<longrightarrow>
            (\<exists>s'. load_data env bs nw s = (Inr (), s')))"
proof -
  let ?ntr = "image_files (path_join (data_dir s) ''train'') (Dir ''Bad'' b1) +
                image_files (path_join (data_dir s) ''train'') (Dir ''Good'' g1)"
  let ?nva = "image_files (path_join (data_dir s) ''val'') (Dir ''Bad'' b2) +
                image_files (path_join (data_dir s) ''val'') (Dir ''Good'' g2)"
  from ImageFolder_Bad_Good [OF assms(4-7), of ctr] obtain dtr where
    "ImageFolder env (path_join (data_dir s) ''train'') ctr = Inr dtr \<and>
     classes dtr = [''Bad'', ''Good''] \<and> length (samples dtr) = ?ntr" ..
  then have dtr: "ImageFolder env (path_join (data_dir s) ''train'') ctr = Inr dtr"
    and cls: "classes dtr = [''Bad'', ''Good'']" and ntr: "length (samples dtr) = ?ntr"
    by (rule conjunct1, rule conjunct2 [THEN conjunct1], rule conjunct2 [THEN conjunct2])
  from ImageFolder_Bad_Good [OF assms(8-11), of cva] obtain dva where
    "ImageFolder env (path_join (data_dir s) ''val'') cva = Inr dva \<and>
     classes dva = [''Bad'', ''Good''] \<and> length (samples dva) = ?nva" ..
  then have dva: "ImageFolder env (path_join (data_dir s) ''val'') cva = Inr dva"
    and nva: "length (samples dva) = ?nva"
    by (rule conjunct1, rule conjunct2 [THEN conjunct2])
  show ?thesis
  proof (intro conjI allI impI)
    fix s'
    assume "load_data env bs nw s = (Inr (), s')"
    from load_data_records [OF assms(1-3) dtr dva this]
    show "class_names s' = Some [''Bad'', ''Good'']"
      and "dataset_sizes s' = Some [''train'' \<mapsto> ?ntr, ''val'' \<mapsto> ?nva]"
      by (simp_all only: cls ntr nva)
  next
    assume "(\<forall>l. DataLoader_raises env l = None) \<and>
            (\<forall>l e. first_batch env l = Inl e \<longrightarrow> e = RuntimeError)"
    then show "\<exists>s'. load_data env bs nw s = (Inr (), s')"
      using load_data_returns [OF assms(1-3) dtr dva] by (elim conjE)
  qed
qed

theorem load_data_Bad_Good_witness:
  "\<exists>s'. load_data (example_env (\<lambda>l. None) (\<lambda>l. Inr ([], []))) 4 0 example_state = (Inr (), s') \<and>
      class_names s' = Some [''Bad'', ''Good''] \<and>
      dataset_sizes s' = Some [''train'' \<mapsto> 3, ''val'' \<mapsto> 2]"
proof -
  let ?env = "example_env (\<lambda>l. None) (\<lambda>l. Inr ([], [])) :: string env"
  let ?dt = "[''train'' \<mapsto> Compose 0, ''val'' \<mapsto> Compose 1]"
  let ?b1 = "[File ''b1.jpg'', File ''b1.txt'', Dir ''old'' [File ''b0.PNG'']]"
  let ?g1 = "[File ''g1.png'']"
  let ?b2 = "[File ''b2.png'']"
  let ?g2 = "[File ''g2.png'']"
  have dt: "data_transforms example_state = Some ?dt" "?dt ''train'' = Some (Compose 0)"
    "?dt ''val'' = Some (Compose 1)"
    by (simp_all add: example_state_simps)
  have tr: "scandir ?env (path_join (data_dir example_state) ''train'') =
              Some [Dir ''Good'' ?g1, Dir ''Bad'' ?b1]"
    by (simp add: example_env_simps example_state_simps example_paths example_tree_def)
  have tr_order: "[Dir ''Good'' ?g1, Dir ''Bad'' ?b1] = [Dir ''Bad'' ?b1, Dir ''Good'' ?g1] \<or>
                  [Dir ''Good'' ?g1, Dir ''Bad'' ?b1] = [Dir ''Good'' ?g1, Dir ''Bad'' ?b1]"
    by simp
  have va: "scandir ?env (path_join (data_dir example_state) ''val'') =
              Some [Dir ''Bad'' ?b2, Dir ''Good'' ?g2]"
    by (simp add: example_env_simps example_state_simps example_paths example_tree_def)
  have va_order: "[Dir ''Bad'' ?b2, Dir ''Good'' ?g2] = [Dir ''Bad'' ?b2, Dir ''Good'' ?g2] \<or>
                  [Dir ''Bad'' ?b2, Dir ''Good'' ?g2] = [Dir ''Good'' ?g2, Dir ''Bad'' ?b2]"
    by simp
  have n: "image_files (path_join (data_dir example_state) ''train'') (Dir ''Bad'' ?b1) = 2"
    "image_files (path_join (data_dir example_state) ''train'') (Dir ''Good'' ?g1) = 1"
    "image_files (path_join (data_dir example_state) ''val'') (Dir ''Bad'' ?b2) = 1"
    "image_files (path_join (data_dir example_state) ''val'') (Dir ''Good'' ?g2) = 1"
    by (simp_all add: example_state_simps path_join_def is_valid_file_examples)
  have pos: "0 < image_files (path_join (data_dir example_state) ''train'') (Dir ''Bad'' ?b1)"
    "0 < image_files (path_join (data_dir example_state) ''train'') (Dir ''Good'' ?g1)"
    "0 < image_files (path_join (data_dir example_state) ''val'') (Dir ''Bad'' ?b2)"
    "0 < image_files (path_join (data_dir example_state) ''val'') (Dir ''Good'' ?g2)"
    by (simp_all only: n)
  note T = load_data_Bad_Good [OF dt tr tr_order pos(1,2) va va_order pos(3,4), of 4 0]
  have "(\<forall>l. DataLoader_raises ?env l = None) \<and>
        (\<forall>l e. first_batch ?env l = Inl e \<longrightarrow> e = RuntimeError)"
    by (simp add: example_env_simps)
  with T obtain s' where s': "load_data ?env 4 0 example_state = (Inr (), s')"
    by blast
  with T have "class_names s' = Some [''Bad'', ''Good''] \<and>
      dataset_sizes s' = Some [''train'' \<mapsto> 2 + 1, ''val'' \<mapsto> 1 + 1]"
    by (simp only: n)
  with s' show ?thesis
    by auto
qed

section \<open>Properties of \<open>get_meanstd\<close>\<close>


lemma concat_chunks: "0 < n \<Longrightarrow> concat (chunks n xs) = xs"
proof (induction n xs rule: chunks.induct)
  case (1 n xs)
  show ?case
  proof (cases "xs = []")
    case True
    then show ?thesis by (simp add: chunks.simps)
  next
    case False
    with 1 have "concat (chunks n (drop n xs)) = drop n xs" by simp
    with False 1(2) show ?thesis by (subst chunks.simps) simp
  qed
qed

lemma chunks_nonempty: "b \<in> set (chunks n xs) \<Longrightarrow> b \<noteq> []"
proof (induction n xs rule: chunks.induct)
  case (1 n xs)
  show ?case
  proof (cases "n = 0 \<or> xs = []")
    case True
    with 1(2) show ?thesis by (simp add: chunks.simps)
  next
    case False
    with 1(2) have "b = take n xs \<or> b \<in> set (chunks n (drop n xs))"
      by (subst (asm) chunks.simps) simp
    with False 1(1) show ?thesis by auto
  qed
qed

lemma chunks_Cons:
  "0 < n \<Longrightarrow> chunks n (x # xs) = take n (x # xs) # chunks n (drop n (x # xs))"
  by (subst chunks.simps) simp

lemma chunks_Nil [simp]: "chunks n [] = []"
  by (subst chunks.simps) simp

lemma chunks_Nil_iff: "0 < n \<Longrightarrow> chunks n xs = [] \<longleftrightarrow> xs = []"
  by (subst chunks.simps) simp

text \<open>Vectors of channel sums, and one pass of the loop.\<close>

lemma length_view [simp]: "length (view t) = channels t"
  by (simp add: view_def)

lemma length_channel_sums [simp]: "length (channel_sums C rows) = C"
  by (simp add: channel_sums_def)

lemma channel_sums_append:
  "channel_sums C (xs @ ys) = map2 (+) (channel_sums C xs) (channel_sums C ys)"
  by (simp add: channel_sums_def map2_map_map)

lemma map2_add_assoc:
  fixes a :: "real list"
  shows "map2 (+) (map2 (+) a v) w = map2 (+) a (map2 (+) v w)"
proof (induction a arbitrary: v w)
  case Nil
  show ?case by simp
next
  case (Cons x a)
  show ?case
    by (cases v; cases w) (simp_all add: Cons.IH)
qed

lemma iadd_vec:
  assumes "acc_ok C a" and "length v = C"
  shows "iadd a v = Inr (Tensor (map2 (+) (acc_vec C a) v))"
proof (cases a)
  case (PyFloat x)
  have "map (\<lambda>y. x + y) v = map2 (+) (replicate (length v) x) v"
    by (induction v) simp_all
  with PyFloat assms show ?thesis by (simp add: acc_vec_def)
next
  case (Tensor u)
  with assms show ?thesis by (simp add: acc_vec_def acc_ok_def)
qed

lemma sum_dim0_stat:
  assumes "b \<noteq> []" and "\<forall>t\<in>set b. channels t = C"
  shows "sum_dim0 (map (map g) (map view b)) = channel_sums C (map (\<lambda>t. map g (view t)) b)"
proof -
  obtain t ts where b: "b = t # ts" using assms(1) by (cases b) auto
  with assms(2) have "channels t = C" by simp
  then have "sum_dim0 (map (map g) (map view b)) =
      map (\<lambda>c. \<Sum>row\<leftarrow>map (map g) (map view b). row ! c) [0..<C]"
    by (simp add: sum_dim0_def b)
  then show ?thesis
    by (simp add: channel_sums_def comp_def)
qed

lemma meanstd_loop_step:
  assumes "b \<noteq> []" and "list_all (\<lambda>t. shape t = shape (hd b)) b"
    and "\<forall>t\<in>set b. channels t = C" and "acc_ok C m" and "acc_ok C sd"
  shows "meanstd_loop (b # bs) (m, sd, n) =
     meanstd_loop bs
       (Tensor (map2 (+) (acc_vec C m) (channel_sums C (map image_means b))),
        Tensor (map2 (+) (acc_vec C sd) (channel_sums C (map image_stds b))),
        n + real (length b))"
proof -
  have c: "default_collate b = Inr b"
    using assms(2) by (simp add: default_collate_def)
  have m: "iadd m (sum_dim0 (map (map tensor_mean) (map view b))) =
             Inr (Tensor (map2 (+) (acc_vec C m) (channel_sums C (map image_means b))))"
    unfolding sum_dim0_stat [OF assms(1,3)] image_means_def [abs_def, symmetric]
    by (rule iadd_vec [OF assms(4)]) simp
  have sd: "iadd sd (sum_dim0 (map (map tensor_std) (map view b))) =
              Inr (Tensor (map2 (+) (acc_vec C sd) (channel_sums C (map image_stds b))))"
    unfolding sum_dim0_stat [OF assms(1,3)] image_stds_def [abs_def, symmetric]
    by (rule iadd_vec [OF assms(5)]) simp
  show ?thesis
    by (simp only: meanstd_loop.simps c sum.case Let_def m sd)
qed

lemma meanstd_loop_result:
  assumes "\<forall>b\<in>set bs. b \<noteq> [] \<and> list_all (\<lambda>t. shape t = shape (hd b)) b"
    and "\<forall>t\<in>set (concat bs). channels t = C"
    and "acc_ok C m" and "acc_ok C sd" and "bs \<noteq> []"
  shows "meanstd_loop bs (m, sd, n) =
     Inr (Tensor (map2 (+) (acc_vec C m) (channel_sums C (map image_means (concat bs)))),
          Tensor (map2 (+) (acc_vec C sd) (channel_sums C (map image_stds (concat bs)))),
          n + real (length (concat bs)))"
  using assms
proof (induction bs arbitrary: m sd n)
  case Nil
  then show ?case by simp
next
  case (Cons b bs)
  let ?m = "Tensor (map2 (+) (acc_vec C m) (channel_sums C (map image_means b)))"
  let ?sd = "Tensor (map2 (+) (acc_vec C sd) (channel_sums C (map image_stds b)))"
  have b: "b \<noteq> []" "list_all (\<lambda>t. shape t = shape (hd b)) b" "\<forall>t\<in>set b. channels t = C"
    using Cons.prems(1,2) by simp_all
  have step: "meanstd_loop (b # bs) (m, sd, n) = meanstd_loop bs (?m, ?sd, n + real (length b))"
    by (rule meanstd_loop_step [OF b Cons.prems(3,4)])
  show ?case
  proof (cases "bs = []")
    case True
    show ?thesis unfolding step using True by simp
  next
    case False
    have ok: "acc_ok C ?m" "acc_ok C ?sd"
      using Cons.prems(3,4) by (cases m; cases sd; simp add: acc_ok_def acc_vec_def)+
    have rest: "\<forall>b\<in>set bs. b \<noteq> [] \<and> list_all (\<lambda>t. shape t = shape (hd b)) b"
      "\<forall>t\<in>set (concat bs). channels t = C"
      using Cons.prems(1,2) by simp_all
    show ?thesis
      unfolding step Cons.IH [OF rest ok False]
      by (simp add: acc_vec_def channel_sums_append map2_add_assoc)
  qed
qed

lemma mean_over_images_eq:
  "map (\<lambda>x. x / real (length imgs)) (channel_sums C (map f imgs)) = mean_over_images f C imgs"
  by (simp add: channel_sums_def mean_over_images_def comp_def)

lemma map2_replicate_0:
  fixes v :: "real list"
  shows "length v = C \<Longrightarrow> map2 (+) (replicate C 0) v = v"
  by (induction v arbitrary: C) auto

lemma get_meanstd_result:
  assumes "ImageFolder env (path_join (data_dir s) split) (store s tr @ [ToTensor]) = Inr ds"
    and "imgs = meanstd_images env (store s tr @ [ToTensor]) ds"
    and "0 < batch_size"
    and "\<forall>b\<in>set (chunks (nat batch_size) imgs). list_all (\<lambda>t. shape t = shape (hd b)) b"
    and "\<forall>t\<in>set imgs. channels t = C"
  shows "meanstd_loop (chunks (nat batch_size) imgs) (PyFloat 0, PyFloat 0, 0) =
           Inr (Tensor (channel_sums C (map image_means imgs)),
                Tensor (channel_sums C (map image_stds imgs)), real (length imgs))"
    and "get_meanstd env tr batch_size split s =
           Inr (Tensor (mean_over_images image_means C imgs),
                Tensor (mean_over_images image_stds C imgs))"
proof -
  have n: "0 < nat batch_size" using assms(3) by simp
  have "samples ds \<noteq> []" by (rule ImageFolder_samples_nonempty [OF assms(1)])
  then have ne: "imgs \<noteq> []" by (simp add: assms(2) meanstd_images_def)
  then have bne: "chunks (nat batch_size) imgs \<noteq> []" by (simp add: chunks_Nil_iff [OF n])
  have wf: "\<forall>b\<in>set (chunks (nat batch_size) imgs). b \<noteq> [] \<and> list_all (\<lambda>t. shape t = shape (hd b)) b"
    using assms(4) chunks_nonempty by blast
  have ch: "\<forall>t\<in>set (concat (chunks (nat batch_size) imgs)). channels t = C"
    using assms(5) by (simp only: concat_chunks [OF n])
  have ok: "acc_ok C (PyFloat 0)" by (simp add: acc_ok_def)
  show loop: "meanstd_loop (chunks (nat batch_size) imgs) (PyFloat 0, PyFloat 0, 0) =
           Inr (Tensor (channel_sums C (map image_means imgs)),
                Tensor (channel_sums C (map image_stds imgs)), real (length imgs))"
    unfolding meanstd_loop_result [OF wf ch ok ok bne] concat_chunks [OF n]
    by (simp add: acc_vec_def map2_replicate_0)
  show "get_meanstd env tr batch_size split s =
           Inr (Tensor (mean_over_images image_means C imgs),
                Tensor (mean_over_images image_stds C imgs))"
    using assms(3)
    by (simp add: get_meanstd_def Let_def assms(1) assms(2) [symmetric] loop mean_over_images_eq)
qed

text \<open>The example images evaluated.\<close>

lemma example_images:
  "meanstd_images (example_env r f) tf (example_train tf') =
     [const_image 0, const_image 0, const_image 1]"
  by (simp add: meanstd_images_def example_train_def example_env_def)

lemma view_const_image: "view (const_image x) = [[x, x]]"
  by (simp add: view_def const_image_def numeral_2_eq_2)

lemma const_image_simps:
  "channels (const_image x) = 1" "height (const_image x) = 1" "width (const_image x) = 2"
  "shape (const_image x) = (1, 1, 2)"
  by (simp_all add: const_image_def shape_def)

lemma example_means:
  "mean_over_images image_means 1 [const_image 0, const_image 0, const_image 1] = [1 / 3]"
  "mean_over_images image_stds 1 [const_image 0, const_image 0, const_image 1] = [0]"
  by (simp_all add: mean_over_images_def image_means_def image_stds_def view_const_image
      tensor_mean_def tensor_std_def)

text \<open>
  C1. Let the split load, let the batch size be positive, let the images of each batch
  have one shape (so that the batch can be stacked) and let every image of the split
  have \<open>C\<close> channels and at least two pixels. Then \<open>get_meanstd\<close> returns the pair of the
  per-channel average of the per-image means and the per-channel average of the
  per-image standard deviations, whatever the batch size. That pair is not the
  dataset-wide statistic: there are images of one shape for which the average of the
  per-image standard deviations differs from the standard deviation over all pixels.
\<close>

theorem get_meanstd_mean_of_image_stats:
  assumes "ImageFolder env (path_join (data_dir s) split) (store s tr @ [ToTensor]) = Inr ds"
    and "imgs = meanstd_images env (store s tr @ [ToTensor]) ds"
    and "0 < batch_size"
    and "\<forall>b\<in>set (chunks (nat batch_size) imgs). \<forall>t\<in>set b. shape t = shape (hd b)"
    and "\<forall>t\<in>set imgs. channels t = C \<and> 2 \<le> height t * width t"
  shows "get_meanstd env tr batch_size split s =
           Inr (Tensor (mean_over_images image_means C imgs),
                Tensor (mean_over_images image_stds C imgs)) \<and>
         (\<exists>imgs'. imgs' \<noteq> [] \<and> list_all (\<lambda>t. shape t = (1, 1, 2)) imgs' \<and>
            mean_over_images image_stds 1 imgs' \<noteq> dataset_stds 1 imgs')"
proof
  have a4: "\<forall>b\<in>set (chunks (nat batch_size) imgs). list_all (\<lambda>t. shape t = shape (hd b)) b"
    using assms(4) by (simp add: list_all_iff)
  have a5: "\<forall>t\<in>set imgs. channels t = C"
    using assms(5) by simp
  show "get_meanstd env tr batch_size split s =
           Inr (Tensor (mean_over_images image_means C imgs),
                Tensor (mean_over_images image_stds C imgs))"
    by (rule get_meanstd_result(2) [OF assms(1-3) a4 a5])
next
  let ?imgs = "[const_image 0, const_image 1]"
  have v: "view (const_image x) = [[x, x]]" for x
    by (simp add: view_def const_image_def numeral_2_eq_2)
  have sd: "image_stds (const_image x) = [0]" for x
    by (simp add: image_stds_def v tensor_std_def tensor_mean_def)
  have l: "mean_over_images image_stds 1 ?imgs = [0]"
    by (simp add: mean_over_images_def sd)
  have "tensor_std [0, 0, 1, 1] = sqrt (1 / 3)"
    by (simp add: tensor_std_def tensor_mean_def power2_eq_square)
  then have r: "dataset_stds 1 ?imgs = [sqrt (1 / 3)]"
    by (simp add: dataset_stds_def v)
  have "?imgs \<noteq> [] \<and> list_all (\<lambda>t. shape t = (1, 1, 2)) ?imgs \<and>
          mean_over_images image_stds 1 ?imgs \<noteq> dataset_stds 1 ?imgs"
    unfolding l r by (simp add: shape_def const_image_def)
  then show "\<exists>imgs'. imgs' \<noteq> [] \<and> list_all (\<lambda>t. shape t = (1, 1, 2)) imgs' \<and>
      mean_over_images image_stds 1 imgs' \<noteq> dataset_stds 1 imgs'"
    by (rule exI)
qed

theorem get_meanstd_mean_of_image_stats_witness:
  "(0::int) < 2 \<and>
   get_meanstd (example_env no_workers_ctor no_workers_fetch) 2 2 ''train'' example_state =
     Inr (Tensor [1 / 3], Tensor [0])"
proof -
  let ?env = "example_env no_workers_ctor no_workers_fetch"
  let ?tf = "store example_state 2 @ [ToTensor]"
  let ?imgs = "[const_image 0, const_image 0, const_image 1]"
  have f: "ImageFolder ?env (path_join (data_dir example_state) ''train'') ?tf =
             Inr (example_train ?tf)"
    by (simp only: example_state_simps example_paths ImageFolder_example_train)
  have i: "?imgs = meanstd_images ?env ?tf (example_train ?tf)"
    by (simp only: example_images)
  have pos: "(0::int) < 2" by simp
  have c: "chunks (nat 2) ?imgs = [[const_image 0, const_image 0], [const_image 1]]"
    by (simp add: chunks_Cons)
  have st: "\<forall>b\<in>set (chunks (nat 2) ?imgs). \<forall>t\<in>set b. shape t = shape (hd b)"
    unfolding c by (simp add: const_image_simps)
  have ch: "\<forall>t\<in>set ?imgs. channels t = 1 \<and> 2 \<le> height t * width t"
    by (simp add: const_image_simps)
  show ?thesis
    using get_meanstd_mean_of_image_stats [OF f i pos st ch, THEN conjunct1]
    by (simp only: example_means pos simp_thms)
qed



section \<open>Properties of \<open>AFMcrop\<close>\<close>

lemma bit_length_eqI: "2 ^ k \<le> n \<Longrightarrow> n < 2 ^ Suc k \<Longrightarrow> bit_length n = Suc k"
proof (induction k arbitrary: n)
  case 0
  then have "n = 1" by simp
  then show ?case by (simp add: bit_length.simps)
next
  case (Suc k)
  from Suc.prems have pos: "n \<noteq> 0" by auto
  have "2 ^ k \<le> n div 2" using Suc.prems(1) by simp
  moreover have "n div 2 < 2 ^ Suc k" using Suc.prems(2) by auto
  ultimately have "bit_length (n div 2) = Suc k" by (rule Suc.IH)
  with pos show ?case by (subst bit_length.simps) simp
qed

lemma AFMcrop_size:
  "im_width (AFMcrop img) = floor_mul_0_7 (im_width img) \<and>
   im_height (AFMcrop img) = im_height img"
  by (simp add: AFMcrop_def crop_def Let_def)

text \<open>The crop never reaches past the right edge, so what it keeps are pixels of the
  image: the columns on the left, over the full height.\<close>

lemma bit_length_bounds: "0 < n \<Longrightarrow> 2 ^ (bit_length n - 1) \<le> n \<and> n < 2 ^ bit_length n"
proof (induction n rule: bit_length.induct)
  case (1 n)
  show ?case
  proof (cases "n div 2 = 0")
    case True
    with 1(2) have "n = 1" by (simp add: div_eq_0_iff) 
    then show ?thesis
      by (subst (1 2) bit_length.simps, subst (1 2) bit_length.simps) simp
  next
    case False
    with 1 have IH: "2 ^ (bit_length (n div 2) - 1) \<le> n div 2" "n div 2 < 2 ^ bit_length (n div 2)"
      by simp_all
    have bl: "bit_length n = Suc (bit_length (n div 2))"
      using 1(2) by (subst bit_length.simps) simp
    have pos: "0 < bit_length (n div 2)"
      using False by (subst bit_length.simps) simp
    from IH(1) have "2 * 2 ^ (bit_length (n div 2) - 1) \<le> n" by simp
    with pos have lo: "2 ^ (bit_length n - 1) \<le> n"
      by (simp add: bl flip: power_Suc) 
    from IH(2) have hi: "n < 2 ^ bit_length n"
      by (simp add: bl)
    from lo hi show ?thesis ..
  qed
qed

lemma bit_length_0: "bit_length 0 = 0"
  by (subst bit_length.simps) simp

lemma round_half_even_le: "round_half_even n k * 2 ^ k \<le> n + 2 ^ k"
proof -
  have q: "n div 2 ^ k * 2 ^ k \<le> n" by simp
  have "round_half_even n k \<le> n div 2 ^ k + 1"
    by (simp add: round_half_even_def Let_def)
  then have "round_half_even n k * 2 ^ k \<le> (n div 2 ^ k + 1) * 2 ^ k"
    by (rule mult_le_mono1)
  also have "\<dots> = n div 2 ^ k * 2 ^ k + 2 ^ k"
    by (simp add: add_mult_distrib)
  also have "\<dots> \<le> n + 2 ^ k"
    using q by (rule add_le_mono1)
  finally show ?thesis .
qed

lemma floor_mul_0_7_le: "floor_mul_0_7 w \<le> w"
proof (cases "w = 0")
  case True
  then show ?thesis
    by (simp add: floor_mul_0_7_def mul_0_7_def round_half_even_def Let_def bit_length_0)
next
  case False
  define n where "n = 6305039478318694 * w"
  define k where "k = bit_length n - 53"
  have npos: "0 < n" using False by (simp add: n_def)
  have fl: "floor_mul_0_7 w = (round_half_even n k * 2 ^ k) div 2 ^ 53"
    by (simp add: floor_mul_0_7_def mul_0_7_def Let_def n_def k_def)
  have "2 ^ k \<le> 2 * w"
  proof (cases "k = 0")
    case True
    with False show ?thesis by simp
  next
    case False
    then have b: "bit_length n - 1 = 52 + k" by (simp add: k_def)
    from bit_length_bounds [OF npos] have "(2::nat) ^ (bit_length n - 1) \<le> n" ..
    then have "(2::nat) ^ (52 + k) \<le> n" by (simp only: b)
    also have "n \<le> 2 ^ 53 * w" by (simp add: n_def)
    finally have "(2::nat) ^ 52 * 2 ^ k \<le> 2 ^ 52 * (2 * w)" by (simp add: power_add)
    then show ?thesis by simp
  qed
  then have "n + 2 ^ k \<le> 6305039478318696 * w" by (simp add: n_def)
  also have "\<dots> < 2 ^ 53 * (w + 1)" by simp
  finally have "round_half_even n k * 2 ^ k < 2 ^ 53 * (w + 1)"
    using round_half_even_le [of n k] by simp
  then have "(round_half_even n k * 2 ^ k) div 2 ^ 53 < w + 1"
    by (simp add: less_mult_imp_div_less mult.commute)
  then show ?thesis by (simp add: fl)
qed

lemma AFMcrop_pixel:
  "x < floor_mul_0_7 (im_width img) \<Longrightarrow> y < im_height img \<Longrightarrow>
     pixel (AFMcrop img) x y = pixel img x y"
  using floor_mul_0_7_le [of "im_width img"] by (simp add: AFMcrop_def crop_def Let_def)

lemma floor_mul_0_7_90: "floor_mul_0_7 90 = 62"
proof -
  have "bit_length (6305039478318694 * 90) = Suc 58"
    by (rule bit_length_eqI) simp_all
  then show ?thesis
    by (simp add: floor_mul_0_7_def mul_0_7_def round_half_even_def Let_def)
qed

text \<open>
  C4. The crop keeps the full height, and its width is \<open>math.floor(0.7 * w)\<close> computed in
  double precision. On an image 90 wide and 60 high that is 62 columns, while the floor
  of seven tenths of 90 is 63: the double nearest to 0.7 lies below 0.7, and its product
  with 90 rounds to the double just below 63 (Python prints \<open>0.7 * 90\<close> as
  \<open>62.99999999999999\<close>).
\<close>

theorem AFMcrop_width_90:
  "im_width (AFMcrop \<lparr>im_width = 90, im_height = 60, pixel = \<lambda>x y. (0::nat)\<rparr>) = 62 \<and>
   im_height (AFMcrop \<lparr>im_width = 90, im_height = 60, pixel = \<lambda>x y. (0::nat)\<rparr>) = 60 \<and>
   \<lfloor>(7 / 10 :: real) * 90\<rfloor> = 63"
  by (simp add: AFMcrop_size floor_mul_0_7_90)

end
